theory Spec2Isabelle
  imports Main
begin

section \<open>Values of the JavaScript runtime\<close>

text \<open>
  Strings are lists of characters. Dates are integer milliseconds, as \<^verbatim>\<open>Date.now()\<close>
  returns them. Page numbers, limits and offsets are JavaScript numbers holding integers;
  they are modelled as \<open>int\<close>, which is exact below \<open>2^53\<close>.
\<close>

definition digit_char :: "int \<Rightarrow> char" where
  "digit_char d = ''0123456789'' ! nat (d mod 10)"

function show_digits :: "int \<Rightarrow> string" where
  "show_digits n =
     (if n < 10 then [digit_char n] else show_digits (n div 10) @ [digit_char (n mod 10)])"
  by pat_completeness auto
termination
  by (relation "measure nat") auto

declare show_digits.simps [simp del]

definition show_int :: "int \<Rightarrow> string" where
  \<comment> \<open>the rendering of an integer-valued number inside a template literal\<close>
  "show_int i = (if i < 0 then CHR ''-'' # show_digits (- i) else show_digits i)"

definition or_null :: "string \<Rightarrow> string option" where
  \<comment> \<open>\<^verbatim>\<open>value || null\<close> on a string: the empty string is falsy\<close>
  "or_null v = (if v = [] then None else Some v)"

definition truthy_str :: "string option \<Rightarrow> bool" where
  \<comment> \<open>truthiness of a field holding \<^verbatim>\<open>null\<close> or a string\<close>
  "truthy_str f = (case f of None \<Rightarrow> False | Some s \<Rightarrow> s \<noteq> [])"

definition truthy_handle :: "nat option \<Rightarrow> bool" where
  \<comment> \<open>truthiness of a field holding \<^verbatim>\<open>null\<close> or a numeric timer handle\<close>
  "truthy_handle f = (case f of None \<Rightarrow> False | Some h \<Rightarrow> h \<noteq> 0)"


section \<open>The explorer object (src/frontend/explorer.js, class AuraExplorer)\<close>

record 'd cache_entry =
  data :: 'd
  timestamp :: int

record page_state =
  page :: int
  limit :: int

record pagination_state =
  blocks :: page_state
  txs :: page_state
  proposals :: page_state

record filter_state =
  txType :: "string option"
  txStatus :: "string option"
  proposalStatus :: "string option"

record 'd explorer =
  apiUrl :: string
  wsUrl :: string
  ws :: "nat option"
  cache :: "string \<rightharpoonup> 'd cache_entry"
  cacheTimeout :: int
  pagination :: pagination_state
  filters :: filter_state
  autoRefresh :: bool
  refreshInterval :: "nat option"

text \<open>The constructor; \<open>cfg_api\<close> and \<open>cfg_ws\<close> are \<^verbatim>\<open>config.apiUrl\<close> and \<^verbatim>\<open>config.wsUrl\<close>.\<close>

definition new_explorer :: "string option \<Rightarrow> string option \<Rightarrow> 'd explorer" where
  "new_explorer cfg_api cfg_ws =
     \<lparr> apiUrl = (if truthy_str cfg_api then the cfg_api else ''http://localhost:8000''),
       wsUrl = (if truthy_str cfg_ws then the cfg_ws else ''ws://localhost:8000/ws''),
       ws = None,
       cache = Map.empty,
       cacheTimeout = 5000,
       pagination = \<lparr> blocks = \<lparr> page = 1, limit = 20 \<rparr>,
                      txs = \<lparr> page = 1, limit = 20 \<rparr>,
                      proposals = \<lparr> page = 1, limit = 20 \<rparr> \<rparr>,
       filters = \<lparr> txType = None, txStatus = None, proposalStatus = None \<rparr>,
       autoRefresh = True,
       refreshInterval = None \<rparr>"

text \<open>
  What a handler asks of its environment, in the order it asks. \<open>Fetch e\<close> is a call
  \<^verbatim>\<open>this.fetchAPI(e)\<close>; a loader (\<^verbatim>\<open>loadBlocks\<close>, \<^verbatim>\<open>loadTransactions\<close>, \<^verbatim>\<open>loadProposals\<close>,
  \<^verbatim>\<open>updateQuickStats\<close>) reads the state and makes this call before its first \<^verbatim>\<open>await\<close>.
  Rendering and console output are left out.
\<close>

datatype effect =
    Fetch string
  | UpdateWSStatus string
  | WsSendSubscribe string
  | SetTimeoutInitWebSocket nat
  | SetInterval nat nat
  | ClearInterval nat


subsection \<open>fetchAPI: the cache check and the write after a successful fetch\<close>

datatype 'd http_response =
    NetworkFailure
  | HttpResponse (ok: bool) (status: nat) (statusText: string) (json: "'d option")

datatype fetch_error =
    NetworkError
  | HttpError nat string
  | JsonError

text \<open>
  \<open>cache_hit\<close> is the block under \<^verbatim>\<open>// Check cache\<close>, with \<open>now\<close> the value of
  \<^verbatim>\<open>Date.now()\<close> there.
\<close>

definition cache_hit :: "'d explorer \<Rightarrow> string \<Rightarrow> int \<Rightarrow> 'd option" where
  "cache_hit st cacheKey now =
     (case cache st cacheKey of
        None \<Rightarrow> None
      | Some cached \<Rightarrow>
          if now - timestamp cached < cacheTimeout st then Some (data cached) else None)"

text \<open>
  \<open>fetchAPI_response\<close> is the rest of the function, run when the awaited \<^verbatim>\<open>fetch\<close> settles,
  on the state of that moment; \<open>now2\<close> is the second \<^verbatim>\<open>Date.now()\<close>. A rejected \<^verbatim>\<open>fetch\<close>
  and a rejected \<^verbatim>\<open>response.json()\<close> (\<open>json = None\<close>) leave the function as the thrown
  error.
\<close>

definition fetchAPI_response ::
  "'d explorer \<Rightarrow> string \<Rightarrow> 'd http_response \<Rightarrow> int \<Rightarrow> (fetch_error + 'd) \<times> 'd explorer" where
  "fetchAPI_response st cacheKey resp now2 =
     (case resp of
        NetworkFailure \<Rightarrow> (Inl NetworkError, st)
      | HttpResponse okay code txt body \<Rightarrow>
          if \<not> okay then (Inl (HttpError code txt), st)
          else (case body of
                  None \<Rightarrow> (Inl JsonError, st)
                | Some d \<Rightarrow>
                    (Inr d, st\<lparr>cache := (cache st)(cacheKey \<mapsto> \<lparr>data = d, timestamp = now2\<rparr>)\<rparr>)))"

text \<open>The whole call when nothing else runs between the request and its response.\<close>

definition fetchAPI ::
  "'d explorer \<Rightarrow> string \<Rightarrow> int \<Rightarrow> 'd http_response \<Rightarrow> int \<Rightarrow> (fetch_error + 'd) \<times> 'd explorer" where
  "fetchAPI st endpoint now resp now2 =
     (case cache_hit st endpoint now of
        Some d \<Rightarrow> (Inr d, st)
      | None \<Rightarrow> fetchAPI_response st endpoint resp now2)"


subsection \<open>Loaders\<close>

definition page_url :: "string \<Rightarrow> page_state \<Rightarrow> string" where
  \<comment> \<open>\<^verbatim>\<open>`<path>?limit=${limit}&offset=${offset}`\<close> with \<^verbatim>\<open>offset = (page - 1) * limit\<close>\<close>
  "page_url path ps =
     path @ ''?limit='' @ show_int (limit ps) @ ''&offset='' @ show_int ((page ps - 1) * limit ps)"

definition loadBlocks :: "'d explorer \<Rightarrow> effect list" where
  "loadBlocks st = [Fetch (page_url ''/api/blocks'' (blocks (pagination st)))]"

definition loadTransactions :: "'d explorer \<Rightarrow> effect list" where
  "loadTransactions st =
     (let url = page_url ''/api/transactions'' (txs (pagination st));
          url = (if truthy_str (txType (filters st))
                 then url @ ''&type='' @ the (txType (filters st)) else url);
          url = (if truthy_str (txStatus (filters st))
                 then url @ ''&status='' @ the (txStatus (filters st)) else url)
      in [Fetch url])"

definition loadProposals :: "'d explorer \<Rightarrow> effect list" where
  "loadProposals st =
     (let url = page_url ''/api/governance/proposals'' (proposals (pagination st));
          url = (if truthy_str (proposalStatus (filters st))
                 then url @ ''&status='' @ the (proposalStatus (filters st)) else url)
      in [Fetch url])"

definition updateQuickStats :: "'d explorer \<Rightarrow> effect list" where
  "updateQuickStats st = [Fetch ''/api/stats'']"


subsection \<open>Pagination handlers\<close>

definition prevBlocksPage :: "'d explorer \<Rightarrow> 'd explorer \<times> effect list" where
  "prevBlocksPage st =
     (if page (blocks (pagination st)) > 1
      then (let st' = st\<lparr>pagination := (pagination st)\<lparr>blocks :=
                          (blocks (pagination st))\<lparr>page := page (blocks (pagination st)) - 1\<rparr>\<rparr>\<rparr>
            in (st', loadBlocks st'))
      else (st, []))"

definition nextBlocksPage :: "'d explorer \<Rightarrow> 'd explorer \<times> effect list" where
  "nextBlocksPage st =
     (let st' = st\<lparr>pagination := (pagination st)\<lparr>blocks :=
                   (blocks (pagination st))\<lparr>page := page (blocks (pagination st)) + 1\<rparr>\<rparr>\<rparr>
      in (st', loadBlocks st'))"

definition prevTxsPage :: "'d explorer \<Rightarrow> 'd explorer \<times> effect list" where
  "prevTxsPage st =
     (if page (txs (pagination st)) > 1
      then (let st' = st\<lparr>pagination := (pagination st)\<lparr>txs :=
                          (txs (pagination st))\<lparr>page := page (txs (pagination st)) - 1\<rparr>\<rparr>\<rparr>
            in (st', loadTransactions st'))
      else (st, []))"

definition nextTxsPage :: "'d explorer \<Rightarrow> 'd explorer \<times> effect list" where
  "nextTxsPage st =
     (let st' = st\<lparr>pagination := (pagination st)\<lparr>txs :=
                   (txs (pagination st))\<lparr>page := page (txs (pagination st)) + 1\<rparr>\<rparr>\<rparr>
      in (st', loadTransactions st'))"

definition prevProposalsPage :: "'d explorer \<Rightarrow> 'd explorer \<times> effect list" where
  "prevProposalsPage st =
     (if page (proposals (pagination st)) > 1
      then (let st' = st\<lparr>pagination := (pagination st)\<lparr>proposals :=
                          (proposals (pagination st))\<lparr>page := page (proposals (pagination st)) - 1\<rparr>\<rparr>\<rparr>
            in (st', loadProposals st'))
      else (st, []))"

definition nextProposalsPage :: "'d explorer \<Rightarrow> 'd explorer \<times> effect list" where
  "nextProposalsPage st =
     (let st' = st\<lparr>pagination := (pagination st)\<lparr>proposals :=
                   (proposals (pagination st))\<lparr>page := page (proposals (pagination st)) + 1\<rparr>\<rparr>\<rparr>
      in (st', loadProposals st'))"


subsection \<open>Filter handlers (attachEventListeners)\<close>

text \<open>The argument \<open>v\<close> is \<^verbatim>\<open>e.target.value\<close> of the \<^verbatim>\<open>change\<close> event.\<close>

definition txTypeFilter_change :: "'d explorer \<Rightarrow> string \<Rightarrow> 'd explorer \<times> effect list" where
  "txTypeFilter_change st v =
     (let st' = st\<lparr>filters := (filters st)\<lparr>txType := or_null v\<rparr>\<rparr>
      in (st', loadTransactions st'))"

definition txStatusFilter_change :: "'d explorer \<Rightarrow> string \<Rightarrow> 'd explorer \<times> effect list" where
  "txStatusFilter_change st v =
     (let st' = st\<lparr>filters := (filters st)\<lparr>txStatus := or_null v\<rparr>\<rparr>
      in (st', loadTransactions st'))"

definition proposalStatusFilter_change :: "'d explorer \<Rightarrow> string \<Rightarrow> 'd explorer \<times> effect list" where
  "proposalStatusFilter_change st v =
     (let st1 = st\<lparr>filters := (filters st)\<lparr>proposalStatus := or_null v\<rparr>\<rparr>;
          st2 = st1\<lparr>pagination := (pagination st1)\<lparr>proposals :=
                       (proposals (pagination st1))\<lparr>page := 1\<rparr>\<rparr>\<rparr>
      in (st2, loadProposals st2))"


subsection \<open>The push channel\<close>

text \<open>
  \<open>sock\<close> is what \<^verbatim>\<open>new WebSocket(this.wsUrl)\<close> gives: a socket, or \<open>None\<close> when the
  constructor throws and the \<^verbatim>\<open>catch\<close> block runs.
\<close>

definition initWebSocket :: "'d explorer \<Rightarrow> nat option \<Rightarrow> 'd explorer \<times> effect list" where
  "initWebSocket st sock =
     (case sock of
        Some w \<Rightarrow> (st\<lparr>ws := Some w\<rparr>, [])
      | None \<Rightarrow> (st, [UpdateWSStatus ''error'']))"

definition ws_onopen :: "'d explorer \<Rightarrow> 'd explorer \<times> effect list" where
  "ws_onopen st =
     (st, [UpdateWSStatus ''connected'',
           WsSendSubscribe ''blocks'',
           WsSendSubscribe ''transactions''])"

definition ws_onerror :: "'d explorer \<Rightarrow> 'd explorer \<times> effect list" where
  "ws_onerror st = (st, [UpdateWSStatus ''error''])"

definition ws_onclose :: "'d explorer \<Rightarrow> 'd explorer \<times> effect list" where
  "ws_onclose st = (st, [UpdateWSStatus ''disconnected'', SetTimeoutInitWebSocket 5000])"

definition handleNewBlock :: "'d explorer \<Rightarrow> 'd explorer \<times> effect list" where
  "handleNewBlock st =
     (let st' = st\<lparr>cache := (cache st)(''blocks'' := None)\<rparr>
      in (st', (if page (blocks (pagination st')) = 1 then loadBlocks st' else [])
               @ updateQuickStats st'))"

definition handleNewTransaction :: "'d explorer \<Rightarrow> 'd explorer \<times> effect list" where
  "handleNewTransaction st =
     (let st' = st\<lparr>cache := (cache st)(''transactions'' := None)\<rparr>
      in (st', (if page (txs (pagination st')) = 1 then loadTransactions st' else [])))"

text \<open>\<open>mtype\<close> is \<^verbatim>\<open>message.type\<close> of the parsed message.\<close>

definition handleWSMessage :: "'d explorer \<Rightarrow> string \<Rightarrow> 'd explorer \<times> effect list" where
  "handleWSMessage st mtype =
     (if mtype = ''new_block'' then handleNewBlock st
      else if mtype = ''new_transaction'' then handleNewTransaction st
      else if mtype = ''subscribed'' then (st, [])
      else (st, []))"


text \<open>
  The message handler of the socket: \<open>parsed\<close> is \<^verbatim>\<open>message.type\<close> of
  \<^verbatim>\<open>JSON.parse(event.data)\<close>, or \<open>None\<close> when parsing throws; the handler then ends with
  nothing done, and the next message is handled as usual.
\<close>

definition ws_onmessage :: "'d explorer \<Rightarrow> string option \<Rightarrow> 'd explorer \<times> effect list" where
  "ws_onmessage st parsed =
     (case parsed of None \<Rightarrow> (st, []) | Some mtype \<Rightarrow> handleWSMessage st mtype)"


subsection \<open>Auto refresh\<close>

text \<open>
  \<open>h\<close> is the handle \<^verbatim>\<open>setInterval\<close> returns. \<open>refresh_tick\<close> is the callback the timer
  runs every 10000 ms.
\<close>

definition refresh_tick :: "'d explorer \<Rightarrow> effect list" where
  "refresh_tick st =
     (if page (blocks (pagination st)) = 1 then loadBlocks st else [])
     @ (if page (txs (pagination st)) = 1 then loadTransactions st else [])
     @ updateQuickStats st"

definition startAutoRefresh :: "'d explorer \<Rightarrow> nat \<Rightarrow> 'd explorer \<times> effect list" where
  "startAutoRefresh st h =
     (if truthy_handle (refreshInterval st) then (st, [])
      else (st\<lparr>refreshInterval := Some h\<rparr>, [SetInterval h 10000]))"

definition stopAutoRefresh :: "'d explorer \<Rightarrow> 'd explorer \<times> effect list" where
  "stopAutoRefresh st =
     (if truthy_handle (refreshInterval st)
      then (st\<lparr>refreshInterval := None\<rparr>, [ClearInterval (the (refreshInterval st))])
      else (st, []))"

text \<open>The handler of the auto-refresh checkbox; \<open>checked\<close> is \<^verbatim>\<open>e.target.checked\<close>.\<close>

definition autoRefresh_change :: "'d explorer \<Rightarrow> bool \<Rightarrow> nat \<Rightarrow> 'd explorer \<times> effect list" where
  "autoRefresh_change st checked h =
     (let st' = st\<lparr>autoRefresh := checked\<rparr>
      in if autoRefresh st' then startAutoRefresh st' h else stopAutoRefresh st')"

text \<open>The interval timers that a log of effects leaves running, given those running before.\<close>

fun active_intervals :: "nat set \<Rightarrow> effect list \<Rightarrow> nat set" where
  "active_intervals T [] = T"
| "active_intervals T (SetInterval h ms # es) = active_intervals (insert h T) es"
| "active_intervals T (ClearInterval h # es) = active_intervals (T - {h}) es"
| "active_intervals T (e # es) = active_intervals T es"


subsection \<open>Vocabulary for the properties\<close>

text \<open>A fetch that fails: the request is rejected, or the response's status is not a success.\<close>

definition fetch_failed :: "'d http_response \<Rightarrow> bool" where
  "fetch_failed resp =
     (case resp of NetworkFailure \<Rightarrow> True | HttpResponse okay code txt body \<Rightarrow> \<not> okay)"

text \<open>
  The events that touch the cache: a response arriving for a pending \<^verbatim>\<open>fetchAPI\<close> call on
  an endpoint, and the two push messages whose handlers delete from it.
\<close>

datatype 'd cache_event =
    Completed string "'d http_response" int
  | NewBlock
  | NewTransaction

fun cache_step :: "'d explorer \<Rightarrow> 'd cache_event \<Rightarrow> 'd explorer" where
  "cache_step st (Completed endpoint resp now2) = snd (fetchAPI_response st endpoint resp now2)"
| "cache_step st NewBlock = fst (handleNewBlock st)"
| "cache_step st NewTransaction = fst (handleNewTransaction st)"

definition run_events :: "'d explorer \<Rightarrow> 'd cache_event list \<Rightarrow> 'd explorer" where
  "run_events st evs = foldl cache_step st evs"

text \<open>The payload and time of a write to key \<open>S\<close>, for an event that is one.\<close>

fun put_of :: "string \<Rightarrow> 'd cache_event \<Rightarrow> ('d \<times> int) option" where
  "put_of S (Completed endpoint (HttpResponse okay code txt (Some d)) now2) =
     (if endpoint = S \<and> okay then Some (d, now2) else None)"
| "put_of S ev = None"

definition puts :: "string \<Rightarrow> 'd cache_event list \<Rightarrow> ('d \<times> int) list" where
  "puts S evs = List.map_filter (put_of S) evs"

text \<open>The three paginated resources, and their handlers by resource.\<close>

datatype resource = Blocks | Txs | Proposals

definition page_of :: "resource \<Rightarrow> 'd explorer \<Rightarrow> int" where
  "page_of r st =
     (case r of
        Blocks \<Rightarrow> page (blocks (pagination st))
      | Txs \<Rightarrow> page (txs (pagination st))
      | Proposals \<Rightarrow> page (proposals (pagination st)))"

definition load :: "resource \<Rightarrow> 'd explorer \<Rightarrow> effect list" where
  "load r st =
     (case r of
        Blocks \<Rightarrow> loadBlocks st
      | Txs \<Rightarrow> loadTransactions st
      | Proposals \<Rightarrow> loadProposals st)"

definition nextPage :: "resource \<Rightarrow> 'd explorer \<Rightarrow> 'd explorer \<times> effect list" where
  "nextPage r st =
     (case r of
        Blocks \<Rightarrow> nextBlocksPage st
      | Txs \<Rightarrow> nextTxsPage st
      | Proposals \<Rightarrow> nextProposalsPage st)"

definition prevPage :: "resource \<Rightarrow> 'd explorer \<Rightarrow> 'd explorer \<times> effect list" where
  "prevPage r st =
     (case r of
        Blocks \<Rightarrow> prevBlocksPage st
      | Txs \<Rightarrow> prevTxsPage st
      | Proposals \<Rightarrow> prevProposalsPage st)"

text \<open>How many of the logged \<^verbatim>\<open>fetchAPI\<close> calls are for an endpoint under \<open>path\<close>.\<close>

fun fetch_under :: "string \<Rightarrow> effect \<Rightarrow> bool" where
  "fetch_under path (Fetch u) = (take (length path) u = path)"
| "fetch_under path e = False"

definition fetches_under :: "string \<Rightarrow> effect list \<Rightarrow> nat" where
  "fetches_under path es = length (filter (fetch_under path) es)"

text \<open>The delays of the reconnections a log of effects schedules.\<close>

fun reconnect_delay :: "effect \<Rightarrow> nat option" where
  "reconnect_delay (SetTimeoutInitWebSocket ms) = Some ms"
| "reconnect_delay e = None"

definition reconnects :: "effect list \<Rightarrow> nat list" where
  "reconnects es = List.map_filter reconnect_delay es"

text \<open>Calls of the auto-refresh switch, run in order, with the effects of all of them.\<close>

datatype refresh_cmd = Start nat | Stop

fun run_refresh :: "'d explorer \<Rightarrow> refresh_cmd list \<Rightarrow> 'd explorer \<times> effect list" where
  "run_refresh st [] = (st, [])"
| "run_refresh st (c # cs) =
     (let (st1, e1) = (case c of Start h \<Rightarrow> startAutoRefresh st h | Stop \<Rightarrow> stopAutoRefresh st);
          (st2, e2) = run_refresh st1 cs
      in (st2, e1 @ e2))"


text \<open>
  What happens to the channel, in order: the constructor of the socket throws or gives a
  socket, and the socket's open, error and close events. A browser follows every error
  event by a close event; a constructor that throws leaves no socket and no event.
\<close>

datatype channel_event =
    SocketFails
  | SocketCreated nat
  | OpenEvent
  | ErrorEvent
  | CloseEvent

fun channel_step :: "'d explorer \<Rightarrow> channel_event \<Rightarrow> 'd explorer \<times> effect list" where
  "channel_step st SocketFails = initWebSocket st None"
| "channel_step st (SocketCreated w) = initWebSocket st (Some w)"
| "channel_step st OpenEvent = ws_onopen st"
| "channel_step st ErrorEvent = ws_onerror st"
| "channel_step st CloseEvent = ws_onclose st"

fun run_channel :: "'d explorer \<Rightarrow> channel_event list \<Rightarrow> 'd explorer \<times> effect list" where
  "run_channel st [] = (st, [])"
| "run_channel st (ev # evs) =
     (let (st1, e1) = channel_step st ev;
          (st2, e2) = run_channel st1 evs
      in (st2, e1 @ e2))"

section \<open>The ledger search (src/ping-pub-explorer/src/api/aura.ts, src/App.tsx)\<close>

text \<open>
  A string is a list of code units; the model reads those below 256. There
  \<^verbatim>\<open>\d\<close> matches the ten digits, \<^verbatim>\<open>[0-9a-f]\<close> under the flag \<^verbatim>\<open>i\<close> matches the digits and
  the letters a to f of both cases, and \<^verbatim>\<open>$\<close> without the flag \<^verbatim>\<open>m\<close> matches at the end of
  the input only.
\<close>

definition is_digit :: "char \<Rightarrow> bool" where
  "is_digit c = (c \<in> set ''0123456789'')"

definition is_hex :: "char \<Rightarrow> bool" where
  "is_hex c = (c \<in> set ''0123456789abcdefABCDEF'')"

definition all_digits :: "string \<Rightarrow> bool" where
  \<comment> \<open>\<^verbatim>\<open>/^\d+$/.test(query)\<close>\<close>
  "all_digits q = (q \<noteq> [] \<and> list_all is_digit q)"

definition hex64 :: "string \<Rightarrow> bool" where
  \<comment> \<open>\<^verbatim>\<open>/^[0-9a-f]{64}$/i.test(hex)\<close>\<close>
  "hex64 h = (length h = 64 \<and> list_all is_hex h)"

text \<open>
  Case conversion, of the letters a to z by their codes. The source applies
  \<^verbatim>\<open>toUpperCase\<close> to a string of hexadecimal digits only, and reads of
  \<^verbatim>\<open>value.toLowerCase()\<close> only whether it starts with \<^verbatim>\<open>0x\<close>, which no character outside
  A to Z can bring about.
\<close>

definition toUpperCase_char :: "char \<Rightarrow> char" where
  "toUpperCase_char c =
     (if 97 \<le> (of_char c :: nat) \<and> (of_char c :: nat) \<le> 122
      then char_of ((of_char c :: nat) - 32) else c)"

definition toLowerCase_char :: "char \<Rightarrow> char" where
  "toLowerCase_char c =
     (if 65 \<le> (of_char c :: nat) \<and> (of_char c :: nat) \<le> 90
      then char_of ((of_char c :: nat) + 32) else c)"

definition toUpperCase :: "string \<Rightarrow> string" where
  "toUpperCase s = map toUpperCase_char s"

definition toLowerCase :: "string \<Rightarrow> string" where
  "toLowerCase s = map toLowerCase_char s"

definition startsWith :: "string \<Rightarrow> string \<Rightarrow> bool" where
  "startsWith s p = (take (length p) s = p)"

text \<open>The white space \<^verbatim>\<open>trim\<close> removes, among the code units below 256.\<close>

definition is_space :: "char \<Rightarrow> bool" where
  "is_space c = ((of_char c :: nat) \<in> {9, 10, 11, 12, 13, 32, 160})"

definition trim :: "string \<Rightarrow> string" where
  "trim s = rev (dropWhile is_space (rev (dropWhile is_space s)))"

text \<open>
  \<^verbatim>\<open>Number(query)\<close> on a string of digits. Up to \<open>2^53\<close> the number is the decimal value
  and the template literal prints it in full; above, the number is rounded to a binary64
  value, which this model does not compute: the result is \<open>None\<close> there.
\<close>

definition digit_value :: "char \<Rightarrow> int" where
  "digit_value c = of_char c - 48"

definition dec_value :: "string \<Rightarrow> int" where
  "dec_value q = foldl (\<lambda>n c. 10 * n + digit_value c) 0 q"

definition Number_digits :: "string \<Rightarrow> int option" where
  "Number_digits q = (if dec_value q \<le> 2 ^ 53 then Some (dec_value q) else None)"

definition normalizeHash :: "string \<Rightarrow> string option" where
  "normalizeHash v =
     (let hex = (if startsWith (toLowerCase v) ''0x'' then drop 2 v else v)
      in if \<not> hex64 hex then None else Some (''0x'' @ toUpperCase hex))"

text \<open>
  The values a parsed response holds, and a property read \<^verbatim>\<open>v.name\<close>: a \<^verbatim>\<open>TypeError\<close> on
  \<^verbatim>\<open>undefined\<close> and \<^verbatim>\<open>null\<close>, the property or \<^verbatim>\<open>undefined\<close> on an object, \<^verbatim>\<open>undefined\<close> on
  the other values for the names read here (\<^verbatim>\<open>result\<close>, \<^verbatim>\<open>block_id\<close>, \<^verbatim>\<open>hash\<close>, \<^verbatim>\<open>height\<close>).
  A number keeps its text.
\<close>

datatype jsval =
    JUndefined
  | JNull
  | JBool bool
  | JNum string
  | JStr string
  | JArr "jsval list"
  | JObj "(string \<times> jsval) list"

datatype search_error =
    FetchError fetch_error
  | TypeError

definition get_prop :: "jsval \<Rightarrow> string \<Rightarrow> search_error + jsval" where
  "get_prop v name =
     (case v of
        JUndefined \<Rightarrow> Inl TypeError
      | JNull \<Rightarrow> Inl TypeError
      | JObj props \<Rightarrow> Inr (case map_of props name of None \<Rightarrow> JUndefined | Some x \<Rightarrow> x)
      | _ \<Rightarrow> Inr JUndefined)"

text \<open>
  \<open>srv\<close> is the server: what \<^verbatim>\<open>fetch(url)\<close> settles to. The text of a failed response's
  body, which only extends the error's message, is left out.
\<close>

definition fetchJson :: "(string \<Rightarrow> jsval http_response) \<Rightarrow> string \<Rightarrow> fetch_error + jsval" where
  "fetchJson srv url =
     (case srv url of
        NetworkFailure \<Rightarrow> Inl NetworkError
      | HttpResponse okay code txt body \<Rightarrow>
          if \<not> okay then Inl (HttpError code txt)
          else (case body of None \<Rightarrow> Inl JsonError | Some v \<Rightarrow> Inr v))"

text \<open>
  The result object \<^verbatim>\<open>{type, height, hash, payload}\<close>. The height of a block result is the
  number searched for; that of a transaction result is \<^verbatim>\<open>Number(tx.result.height)\<close>, kept
  here as the value the conversion is applied to.
\<close>

datatype height_value = HeightNumber int | NumberOf jsval

datatype search_result =
  SearchResult (rtype: string) (rheight: height_value) (rhash: jsval) (payload: jsval)

text \<open>
  \<^verbatim>\<open>searchLedger\<close> gives the URLs it requested, and its outcome: the thrown error, \<open>None\<close>
  for \<^verbatim>\<open>null\<close>, or the result object. The outer \<open>None\<close> stands for a height above \<open>2^53\<close>.
\<close>

definition block_result :: "int \<Rightarrow> jsval \<Rightarrow> search_error + search_result option" where
  "block_result targetHeight block =
     (case get_prop block ''result'' of
        Inl e \<Rightarrow> Inl e
      | Inr res \<Rightarrow>
          (case get_prop res ''block_id'' of
             Inl e \<Rightarrow> Inl e
           | Inr bid \<Rightarrow>
               (case get_prop bid ''hash'' of
                  Inl e \<Rightarrow> Inl e
                | Inr h \<Rightarrow> Inr (Some (SearchResult ''block'' (HeightNumber targetHeight) h res)))))"

definition tx_result :: "jsval \<Rightarrow> search_error + search_result option" where
  "tx_result tx =
     (case get_prop tx ''result'' of
        Inl e \<Rightarrow> Inl e
      | Inr res \<Rightarrow>
          (case get_prop res ''height'' of
             Inl e \<Rightarrow> Inl e
           | Inr ht \<Rightarrow>
               (case get_prop res ''hash'' of
                  Inl e \<Rightarrow> Inl e
                | Inr h \<Rightarrow> Inr (Some (SearchResult ''transaction'' (NumberOf ht) h res)))))"

definition searchLedger ::
  "(string \<Rightarrow> jsval http_response) \<Rightarrow> string
     \<Rightarrow> (string list \<times> (search_error + search_result option)) option" where
  "searchLedger srv query =
     (if all_digits query then
        (case Number_digits query of
           None \<Rightarrow> None
         | Some targetHeight \<Rightarrow>
             (let url = ''/rpc/block?height='' @ show_int targetHeight
              in Some ([url],
                   (case fetchJson srv url of
                      Inl e \<Rightarrow> Inl (FetchError e)
                    | Inr block \<Rightarrow> block_result targetHeight block))))
      else
        (case normalizeHash query of
           None \<Rightarrow> Some ([], Inr None)
         | Some normalized \<Rightarrow>
             (let url = ''/rpc/tx?hash='' @ normalized
              in Some ([url],
                   (case fetchJson srv url of
                      Inl e \<Rightarrow> Inr None
                    | Inr tx \<Rightarrow>
                        (case tx_result tx of
                           Inl e \<Rightarrow> Inr None
                         | Inr r \<Rightarrow> Inr r))))))"

text \<open>
  \<^verbatim>\<open>onSearch\<close> of the application: what the search panel shows after the call, with the
  URLs requested. \<open>NoMatchMessage\<close> is the text \<^verbatim>\<open>No block or transaction found.\<close>
\<close>

datatype search_view =
    Blank
  | NoMatchMessage
  | ErrorMessage search_error
  | ResultShown search_result

definition onSearch ::
  "(string \<Rightarrow> jsval http_response) \<Rightarrow> string \<Rightarrow> (string list \<times> search_view) option" where
  "onSearch srv v =
     (if trim v = [] then Some ([], Blank)
      else
        (case searchLedger srv (trim v) of
           None \<Rightarrow> None
         | Some (urls, Inl e) \<Rightarrow> Some (urls, ErrorMessage e)
         | Some (urls, Inr None) \<Rightarrow> Some (urls, NoMatchMessage)
         | Some (urls, Inr (Some r)) \<Rightarrow> Some (urls, ResultShown r)))"

text \<open>The forms of a transaction hash: 64 hexadecimal digits, bare or after \<^verbatim>\<open>0x\<close> or \<^verbatim>\<open>0X\<close>.\<close>

definition hash_form :: "string \<Rightarrow> string \<Rightarrow> bool" where
  "hash_form q h = (hex64 h \<and> (q = h \<or> q = ''0x'' @ h \<or> q = ''0X'' @ h))"

text \<open>The digits of a normalized hash.\<close>

definition is_upper_hex :: "char \<Rightarrow> bool" where
  "is_upper_hex c = (c \<in> set ''0123456789ABCDEF'')"


section \<open>Properties of the explorer object\<close>

subsection \<open>fetchAPI and its cache\<close>

lemma fetchAPI_response_failed:
  "fetch_failed resp \<Longrightarrow> \<exists>e. fetchAPI_response st k resp t = (Inl e, st)"
  by (cases resp) (auto simp: fetch_failed_def fetchAPI_response_def)

lemma cacheTimeout_cache_step [simp]: "cacheTimeout (cache_step st ev) = cacheTimeout st"
  by (cases ev) (auto simp: fetchAPI_response_def handleNewBlock_def handleNewTransaction_def Let_def
        split: http_response.splits option.splits)

lemma cache_cache_step:
  "S \<noteq> ''blocks'' \<Longrightarrow> S \<noteq> ''transactions'' \<Longrightarrow>
   cache (cache_step st ev) S =
     (case put_of S ev of None \<Rightarrow> cache st S | Some (d, t) \<Rightarrow> Some \<lparr>data = d, timestamp = t\<rparr>)"
  by (cases "(S, ev)" rule: put_of.cases)
     (auto simp: fetchAPI_response_def handleNewBlock_def handleNewTransaction_def Let_def)

lemma run_events_snoc: "run_events st (evs @ [ev]) = cache_step (run_events st evs) ev"
  by (simp add: run_events_def)

lemma puts_snoc: "puts S (evs @ [ev]) = puts S evs @ (case put_of S ev of None \<Rightarrow> [] | Some x \<Rightarrow> [x])"
  by (simp add: puts_def List.map_filter_def split: option.splits)

lemma cacheTimeout_run_events [simp]: "cacheTimeout (run_events st evs) = cacheTimeout st"
  by (induction evs rule: rev_induct) (simp_all add: run_events_snoc, simp add: run_events_def)

lemma cache_run_events:
  assumes "S \<noteq> ''blocks''" "S \<noteq> ''transactions''"
  shows "cache (run_events st evs) S =
     (if puts S evs = [] then cache st S
      else Some \<lparr>data = fst (last (puts S evs)), timestamp = snd (last (puts S evs))\<rparr>)"
proof (induction evs rule: rev_induct)
  case Nil
  show ?case by (simp add: run_events_def puts_def List.map_filter_def)
next
  case (snoc ev evs)
  show ?case
    using snoc.IH
    by (simp add: run_events_snoc puts_snoc cache_cache_step [OF assms] split: option.splits)
qed

lemma sorted_last_max:
  "sorted (map snd ps) \<Longrightarrow> x \<in> set ps \<Longrightarrow> snd x \<le> snd (last ps)"
proof (induction ps rule: rev_induct)
  case Nil
  then show ?case by simp
next
  case (snoc y ys)
  then show ?case by (auto simp: sorted_append)
qed

text \<open>
  Claim C10. When the underlying fetch fails (the request is rejected, or the response's
  status is not a success), \<^verbatim>\<open>fetchAPI\<close> ends in the thrown error and leaves the explorer,
  its cache included, as it was: no entry is added, and the entry under the endpoint, fresh
  or expired, is neither removed nor overwritten. This holds for the part of the call that
  runs when the response arrives, on whatever state it finds, and for the whole call; when
  the cache check misses, the whole call ends in the error.
\<close>

theorem fetchAPI_failure_keeps_cache:
  assumes "fetch_failed resp"
  shows "(\<exists>e. fetchAPI_response st endpoint resp now2 = (Inl e, st))
       \<and> snd (fetchAPI st endpoint now resp now2) = st
       \<and> (cache_hit st endpoint now = None \<longrightarrow>
            (\<exists>e. fetchAPI st endpoint now resp now2 = (Inl e, st)))"
  using fetchAPI_response_failed [OF assms, of st endpoint now2]
  by (auto simp: fetchAPI_def split: option.splits)

theorem fetchAPI_failure_keeps_cache_witness:
  "fetch_failed (HttpResponse False 500 ''Internal Server Error'' (None :: string option))
   \<and> cache_hit
        (run_events (new_explorer None None)
           [Completed ''/api/stats'' (HttpResponse True 200 ''OK'' (Some ''{latest_block:7}'')) 0])
        ''/api/stats'' 6000 = None
   \<and> fetchAPI
        (run_events (new_explorer None None)
           [Completed ''/api/stats'' (HttpResponse True 200 ''OK'' (Some ''{latest_block:7}'')) 0])
        ''/api/stats'' 6000 (HttpResponse False 500 ''Internal Server Error'' None) 6100
       = (Inl (HttpError 500 ''Internal Server Error''),
          run_events (new_explorer None None)
           [Completed ''/api/stats'' (HttpResponse True 200 ''OK'' (Some ''{latest_block:7}'')) 0])
   \<and> cache
        (run_events (new_explorer None None)
           [Completed ''/api/stats'' (HttpResponse True 200 ''OK'' (Some ''{latest_block:7}'')) 0])
        ''/api/stats'' = Some \<lparr>data = ''{latest_block:7}'', timestamp = 0\<rparr>"
proof -
  let ?s = "run_events (new_explorer None None)
    [Completed ''/api/stats'' (HttpResponse True 200 ''OK'' (Some ''{latest_block:7}'')) 0]"
  let ?r = "HttpResponse False 500 ''Internal Server Error'' (None :: string option)"
  have f: "fetch_failed ?r"
    by (simp add: fetch_failed_def)
  have c: "cache ?s ''/api/stats'' = Some \<lparr>data = ''{latest_block:7}'', timestamp = 0\<rparr>"
    by (simp add: run_events_def fetchAPI_response_def)
  have t: "cacheTimeout (new_explorer None None :: string explorer) = 5000"
    by (simp add: new_explorer_def)
  have m: "cache_hit ?s ''/api/stats'' 6000 = None"
    by (simp add: cache_hit_def c t)
  have e: "fetchAPI ?s ''/api/stats'' 6000 ?r 6100 = (Inl (HttpError 500 ''Internal Server Error''), ?s)"
    using fetchAPI_failure_keeps_cache [OF f, of ?s "''/api/stats''" 6100 6000] m
    by (auto simp: fetchAPI_def fetchAPI_response_def)
  show ?thesis
    using f c m e by blast
qed

text \<open>
  Claim C5. Start from a new explorer and let any sequence of cache events happen. For a
  query signature \<open>S\<close> (any key but the two literals the push handlers delete) and a
  time \<open>t\<close>, the cache check of \<^verbatim>\<open>fetchAPI\<close> returns a payload if and only if some write
  to \<open>S\<close> happened at a time \<open>t'\<close> with \<open>t - t' < 5000\<close>, and the payload is then that of
  the last write. The times of the writes to \<open>S\<close> are taken in the order of a clock that
  does not run backwards. The witness is the scenario of the specification: a write at time
  0 is returned at time 4000 and absent at time 6000.
\<close>

theorem cache_get_iff_recent_put:
  assumes clock: "sorted (map snd (puts S evs))"
    and key: "S \<noteq> ''blocks''" "S \<noteq> ''transactions''"
  shows "(cache_hit (run_events (new_explorer a b) evs) S t \<noteq> None
            \<longleftrightarrow> (\<exists>x \<in> set (puts S evs). t - snd x < 5000))
       \<and> (cache_hit (run_events (new_explorer a b) evs) S t \<noteq> None \<longrightarrow>
            cache_hit (run_events (new_explorer a b) evs) S t = Some (fst (last (puts S evs))))"
proof (cases "puts S evs = []")
  case True
  then show ?thesis
    by (simp add: cache_hit_def cache_run_events [OF key] new_explorer_def)
next
  case False
  have hit: "cache_hit (run_events (new_explorer a b) evs) S t =
      (if t - snd (last (puts S evs)) < 5000 then Some (fst (last (puts S evs))) else None)"
    using False by (simp add: cache_hit_def cache_run_events [OF key] new_explorer_def)
  have "(\<exists>x \<in> set (puts S evs). t - snd x < 5000) \<longleftrightarrow> t - snd (last (puts S evs)) < 5000"
  proof
    assume "\<exists>x \<in> set (puts S evs). t - snd x < 5000"
    then obtain x where x: "x \<in> set (puts S evs)" "t - snd x < 5000" by blast
    from sorted_last_max [OF clock x(1)] x(2) show "t - snd (last (puts S evs)) < 5000" by simp
  next
    assume "t - snd (last (puts S evs)) < 5000"
    with False show "\<exists>x \<in> set (puts S evs). t - snd x < 5000"
      using last_in_set by blast
  qed
  with hit show ?thesis by simp
qed


theorem cache_get_iff_recent_put_witness:
  "cache_hit (run_events (new_explorer None None)
       [Completed ''/api/blocks?limit=20&offset=0''
          (HttpResponse True 200 ''OK'' (Some ''{blocks:[{height:100}]}'')) 0])
     ''/api/blocks?limit=20&offset=0'' 4000 = Some ''{blocks:[{height:100}]}''
   \<and> cache_hit (run_events (new_explorer None None)
       [Completed ''/api/blocks?limit=20&offset=0''
          (HttpResponse True 200 ''OK'' (Some ''{blocks:[{height:100}]}'')) 0])
     ''/api/blocks?limit=20&offset=0'' 6000 = None
   \<and> cache_hit (run_events (new_explorer None None)
       [Completed ''/api/blocks?limit=20&offset=0''
          (HttpResponse True 200 ''OK'' (Some ''{blocks:[{height:100}]}'')) 0,
        NewBlock,
        Completed ''/api/blocks?limit=20&offset=0''
          (HttpResponse True 200 ''OK'' (Some ''{blocks:[{height:101}]}'')) 3000,
        Completed ''/api/blocks?limit=20&offset=0'' (HttpResponse False 500 ''Error'' None) 3500,
        Completed ''/api/stats'' (HttpResponse True 200 ''OK'' (Some ''{latest_block:101}'')) 3600])
     ''/api/blocks?limit=20&offset=0'' 7000 = Some ''{blocks:[{height:101}]}''"
proof -
  let ?S = "''/api/blocks?limit=20&offset=0''"
  let ?e0 = "Completed ?S (HttpResponse True 200 ''OK'' (Some ''{blocks:[{height:100}]}'')) 0"
  let ?evs = "[?e0]"
  let ?evs' = "[?e0, NewBlock,
        Completed ?S (HttpResponse True 200 ''OK'' (Some ''{blocks:[{height:101}]}'')) 3000,
        Completed ?S (HttpResponse False 500 ''Error'' None) 3500,
        Completed ''/api/stats'' (HttpResponse True 200 ''OK'' (Some ''{latest_block:101}'')) 3600]"
  have p: "puts ?S ?evs = [(''{blocks:[{height:100}]}'', 0)]"
    by (simp add: puts_def List.map_filter_def)
  have p': "puts ?S ?evs' = [(''{blocks:[{height:100}]}'', 0), (''{blocks:[{height:101}]}'', 3000)]"
    by (simp add: puts_def List.map_filter_def)
  have clock: "sorted (map snd (puts ?S ?evs))"
    by (simp add: p)
  have clock': "sorted (map snd (puts ?S ?evs'))"
    by (simp add: p')
  have k1: "?S \<noteq> ''blocks''" and k2: "?S \<noteq> ''transactions''"
    by simp_all
  show ?thesis
    using cache_get_iff_recent_put [OF clock k1 k2, of None None 4000]
          cache_get_iff_recent_put [OF clock k1 k2, of None None 6000]
          cache_get_iff_recent_put [OF clock' k1 k2, of None None 7000]
    by (simp add: p p')
qed


subsection \<open>Pagination\<close>

lemma load_single: "\<exists>u. load r st = [Fetch u]"
  by (cases r) (simp_all add: load_def loadBlocks_def loadTransactions_def loadProposals_def Let_def)

lemma nextPage_page: "page_of r (fst (nextPage r st)) = page_of r st + 1"
  by (cases r)
     (simp_all add: nextPage_def page_of_def nextBlocksPage_def nextTxsPage_def
        nextProposalsPage_def Let_def)

lemma nextPage_load: "snd (nextPage r st) = load r (fst (nextPage r st))"
  by (cases r)
     (simp_all add: nextPage_def load_def nextBlocksPage_def nextTxsPage_def
        nextProposalsPage_def Let_def)

lemma nextPage_filters: "filters (fst (nextPage r st)) = filters st"
  by (cases r)
     (simp_all add: nextPage_def nextBlocksPage_def nextTxsPage_def nextProposalsPage_def Let_def)

lemma prevPage_first: "page_of r st \<le> 1 \<Longrightarrow> prevPage r st = (st, [])"
  by (cases r)
     (simp_all add: prevPage_def page_of_def prevBlocksPage_def prevTxsPage_def
        prevProposalsPage_def)

lemma prevPage_page: "1 < page_of r st \<Longrightarrow> page_of r (fst (prevPage r st)) = page_of r st - 1"
  by (cases r)
     (simp_all add: prevPage_def page_of_def prevBlocksPage_def prevTxsPage_def
        prevProposalsPage_def Let_def)

lemma prevPage_load: "1 < page_of r st \<Longrightarrow> snd (prevPage r st) = load r (fst (prevPage r st))"
  by (cases r)
     (simp_all add: prevPage_def page_of_def load_def prevBlocksPage_def prevTxsPage_def
        prevProposalsPage_def Let_def)

lemma prevPage_filters: "filters (fst (prevPage r st)) = filters st"
  by (cases r)
     (simp_all add: prevPage_def prevBlocksPage_def prevTxsPage_def prevProposalsPage_def Let_def)

text \<open>
  Claim C6. For each of the three resources: the next-page handler adds exactly 1 to the
  page, whatever the page, and calls the resource's loader once, on the new page; the
  previous-page handler subtracts 1 and calls the loader once when the page is above 1; at
  page 1 it changes nothing and calls nothing. From page 1, three next-page calls give
  page 4 and one previous-page call then gives page 3.
\<close>

theorem page_turning:
  "page_of r (fst (nextPage r st)) = page_of r st + 1
   \<and> snd (nextPage r st) = load r (fst (nextPage r st))
   \<and> (\<exists>u. snd (nextPage r st) = [Fetch u])
   \<and> (1 < page_of r st \<longrightarrow>
         page_of r (fst (prevPage r st)) = page_of r st - 1
         \<and> snd (prevPage r st) = load r (fst (prevPage r st))
         \<and> (\<exists>u. snd (prevPage r st) = [Fetch u]))
   \<and> (page_of r st = 1 \<longrightarrow> prevPage r st = (st, []))
   \<and> (page_of r st = 1 \<longrightarrow>
         page_of r (fst (nextPage r (fst (nextPage r (fst (nextPage r st)))))) = 4
         \<and> page_of r (fst (prevPage r (fst (nextPage r (fst (nextPage r (fst (nextPage r st)))))))) = 3)"
proof -
  have three: "page_of r (fst (nextPage r (fst (nextPage r (fst (nextPage r st)))))) = page_of r st + 3"
    by (simp add: nextPage_page)
  have undo: "page_of r st = 1 \<Longrightarrow>
      page_of r (fst (prevPage r (fst (nextPage r (fst (nextPage r (fst (nextPage r st)))))))) = 3"
    using three by (simp add: prevPage_page)
  have n: "\<exists>u. snd (nextPage r st) = [Fetch u]"
    using load_single [of r "fst (nextPage r st)"] by (simp add: nextPage_load)
  have p: "1 < page_of r st \<Longrightarrow> \<exists>u. snd (prevPage r st) = [Fetch u]"
    using load_single [of r "fst (prevPage r st)"] by (simp add: prevPage_load)
  show ?thesis
    using three undo n p
    by (simp add: nextPage_page prevPage_page prevPage_first prevPage_load nextPage_load [symmetric])
qed

theorem page_turning_witness:
  "page_of Blocks (new_explorer None None :: string explorer) = 1
   \<and> prevPage Blocks (new_explorer None None :: string explorer) = (new_explorer None None, [])
   \<and> page_of Blocks (fst (prevPage Blocks (fst (nextPage Blocks (fst (nextPage Blocks
         (fst (nextPage Blocks (new_explorer None None :: string explorer))))))))) = 3
   \<and> 1 < page_of Txs (fst (nextPage Txs (new_explorer None None :: string explorer)))
   \<and> page_of Txs (fst (prevPage Txs (fst (nextPage Txs (new_explorer None None :: string explorer))))) = 1
   \<and> snd (prevPage Txs (fst (nextPage Txs (new_explorer None None :: string explorer))))
       = [Fetch ''/api/transactions?limit=20&offset=0'']"
proof -
  let ?s = "new_explorer None None :: string explorer"
  have one: "page_of Blocks ?s = 1"
    by (simp add: page_of_def new_explorer_def)
  have two: "page_of Txs (fst (nextPage Txs ?s)) = 2"
    by (simp add: page_of_def new_explorer_def nextPage_def nextTxsPage_def Let_def)
  have url: "load Txs (fst (prevPage Txs (fst (nextPage Txs ?s))))
               = [Fetch ''/api/transactions?limit=20&offset=0'']"
    by (simp add: load_def loadTransactions_def prevPage_def prevTxsPage_def nextPage_def
          nextTxsPage_def new_explorer_def Let_def page_url_def truthy_str_def
          show_int_def show_digits.simps digit_char_def)
  show ?thesis
    using page_turning [of Blocks ?s] page_turning [of Txs "fst (nextPage Txs ?s)"] one two url
    by simp
qed


subsection \<open>Push messages\<close>

text \<open>
  Claim C7. Handling a \<^verbatim>\<open>new_block\<close> message while the blocks view is on page 1 makes
  exactly one \<^verbatim>\<open>fetchAPI\<close> call for the blocks resource and one for the summary statistics;
  on any other page it makes no call for the blocks resource, and the one for the
  statistics.
\<close>

theorem new_block_refetches:
  "(page (blocks (pagination st)) = 1 \<longrightarrow>
      snd (handleNewBlock st) = [Fetch (page_url ''/api/blocks'' (blocks (pagination st))), Fetch ''/api/stats'']
      \<and> fetches_under ''/api/blocks'' (snd (handleNewBlock st)) = 1
      \<and> fetches_under ''/api/stats'' (snd (handleNewBlock st)) = 1)
   \<and> (page (blocks (pagination st)) \<noteq> 1 \<longrightarrow>
      snd (handleNewBlock st) = [Fetch ''/api/stats'']
      \<and> fetches_under ''/api/blocks'' (snd (handleNewBlock st)) = 0
      \<and> fetches_under ''/api/stats'' (snd (handleNewBlock st)) = 1)"
proof -
  have a: "\<not> fetch_under ''/api/stats'' (Fetch (page_url ''/api/blocks'' ps))" for ps
    by (simp add: page_url_def)
  have b: "\<not> fetch_under ''/api/blocks'' (Fetch ''/api/stats'')"
    by simp
  have c: "fetch_under ''/api/stats'' (Fetch ''/api/stats'')"
    by simp
  have d: "fetch_under ''/api/blocks'' (Fetch (page_url ''/api/blocks'' ps))" for ps
    by (simp add: page_url_def)
  show ?thesis
    using a b c d
    by (simp add: handleNewBlock_def loadBlocks_def updateQuickStats_def fetches_under_def Let_def
          del: fetch_under.simps)
qed

theorem new_block_refetches_witness:
  "page (blocks (pagination (new_explorer None None :: string explorer))) = 1
   \<and> snd (handleNewBlock (new_explorer None None :: string explorer))
       = [Fetch ''/api/blocks?limit=20&offset=0'', Fetch ''/api/stats'']
   \<and> page (blocks (pagination (fst (nextBlocksPage (new_explorer None None :: string explorer))))) \<noteq> 1
   \<and> snd (handleNewBlock (fst (nextBlocksPage (new_explorer None None :: string explorer))))
       = [Fetch ''/api/stats'']"
proof -
  let ?s = "new_explorer None None :: string explorer"
  have u: "page_url ''/api/blocks'' (blocks (pagination ?s)) = ''/api/blocks?limit=20&offset=0''"
    by (simp add: new_explorer_def page_url_def show_int_def show_digits.simps digit_char_def)
  have p1: "page (blocks (pagination ?s)) = 1"
    by (simp add: new_explorer_def)
  have p2: "page (blocks (pagination (fst (nextBlocksPage ?s)))) = 2"
    by (simp add: new_explorer_def nextBlocksPage_def Let_def)
  show ?thesis
    using new_block_refetches [of ?s] new_block_refetches [of "fst (nextBlocksPage ?s)"] u p1 p2
    by simp
qed


text \<open>
  Claim C1, at a failing input. The blocks page of the first view is cached at time 0 under
  its endpoint; a \<^verbatim>\<open>new_block\<close> message is handled; the handler deletes the key
  \<^verbatim>\<open>blocks\<close>, which is no endpoint, so at time 1000 the cached page is still returned by
  the cache check, and the re-fetch the handler starts answers with it and not with the
  server's new page.
\<close>

theorem new_block_keeps_cached_page:
  "cache_hit
     (fst (handleNewBlock
        (run_events (new_explorer None None)
           [Completed ''/api/blocks?limit=20&offset=0''
              (HttpResponse True 200 ''OK'' (Some ''{blocks:[{height:100}]}'')) 0])))
     ''/api/blocks?limit=20&offset=0'' 1000 = Some ''{blocks:[{height:100}]}''
   \<and> snd (handleNewBlock
        (run_events (new_explorer None None)
           [Completed ''/api/blocks?limit=20&offset=0''
              (HttpResponse True 200 ''OK'' (Some ''{blocks:[{height:100}]}'')) 0]))
       = [Fetch ''/api/blocks?limit=20&offset=0'', Fetch ''/api/stats'']
   \<and> fst (fetchAPI
        (fst (handleNewBlock
           (run_events (new_explorer None None)
              [Completed ''/api/blocks?limit=20&offset=0''
                 (HttpResponse True 200 ''OK'' (Some ''{blocks:[{height:100}]}'')) 0])))
        ''/api/blocks?limit=20&offset=0'' 1000
        (HttpResponse True 200 ''OK'' (Some ''{blocks:[{height:101},{height:100}]}'')) 1050)
       = Inr ''{blocks:[{height:100}]}''"
  by (simp add: run_events_def fetchAPI_response_def handleNewBlock_def new_explorer_def
        cache_hit_def fetchAPI_def loadBlocks_def updateQuickStats_def page_url_def Let_def
        show_int_def show_digits.simps digit_char_def)


subsection \<open>Filters\<close>

text \<open>
  Claim C2, at a failing input. With the transactions view on page 3, a change of the type
  filter to \<^verbatim>\<open>send\<close> stores the filter and fetches with offset 40: the page is still 3,
  and so it is after a change of the status filter. The handler of the proposals filter,
  on the same page, resets the page to 1.
\<close>

theorem tx_filter_keeps_page:
  "page_of Txs (fst (nextPage Txs (fst (nextPage Txs (new_explorer None None :: string explorer))))) = 3
   \<and> page_of Txs (fst (txTypeFilter_change
        (fst (nextPage Txs (fst (nextPage Txs (new_explorer None None :: string explorer))))) ''send'')) = 3
   \<and> snd (txTypeFilter_change
        (fst (nextPage Txs (fst (nextPage Txs (new_explorer None None :: string explorer))))) ''send'')
       = [Fetch ''/api/transactions?limit=20&offset=40&type=send'']
   \<and> page_of Txs (fst (txStatusFilter_change
        (fst (nextPage Txs (fst (nextPage Txs (new_explorer None None :: string explorer))))) ''success'')) = 3
   \<and> page_of Proposals (fst (proposalStatusFilter_change
        (fst (nextPage Proposals (fst (nextPage Proposals (new_explorer None None :: string explorer)))))
        ''Voting'')) = 1"
  by (simp add: page_of_def nextPage_def nextTxsPage_def nextProposalsPage_def
        txTypeFilter_change_def txStatusFilter_change_def proposalStatusFilter_change_def
        loadTransactions_def new_explorer_def page_url_def Let_def or_null_def truthy_str_def
        show_int_def show_digits.simps digit_char_def)


subsection \<open>The channel's handlers\<close>

text \<open>
  The handlers one by one: the close handler sets the status and schedules one
  reconnection, \<^verbatim>\<open>initWebSocket\<close> after 5000 ms; the error handler and the \<^verbatim>\<open>catch\<close> block
  of \<^verbatim>\<open>initWebSocket\<close> set the status only; the open handler sets the status and sends the
  two subscription requests.
\<close>

lemma channel_handlers:
  "ws_onclose st = (st, [UpdateWSStatus ''disconnected'', SetTimeoutInitWebSocket 5000])
   \<and> ws_onerror st = (st, [UpdateWSStatus ''error''])
   \<and> initWebSocket st None = (st, [UpdateWSStatus ''error''])
   \<and> ws_onopen st = (st, [UpdateWSStatus ''connected'', WsSendSubscribe ''blocks'',
                           WsSendSubscribe ''transactions''])"
  by (simp add: ws_onclose_def ws_onerror_def initWebSocket_def ws_onopen_def)

text \<open>
  Claim C8, at a failing input. When the constructor of the socket throws, the status
  becomes \<^verbatim>\<open>error\<close> and no reconnection is scheduled; no socket exists whose close event
  could schedule one, so the channel stays down. On the other ways into Errored and
  Disconnected the code does what the claim says: an error event with the close event
  that follows it, and a close event after an open one, each schedule exactly one
  reconnection after 5000 ms, and a socket that opens after the reconnection gets the two
  subscription requests, \<^verbatim>\<open>blocks\<close> then \<^verbatim>\<open>transactions\<close>, right after the status.
\<close>

theorem constructor_failure_no_reconnect:
  "snd (run_channel (new_explorer None None :: string explorer) [SocketFails])
     = [UpdateWSStatus ''error'']
   \<and> reconnects (snd (run_channel (new_explorer None None :: string explorer) [SocketFails])) = []
   \<and> reconnects (snd (run_channel (new_explorer None None :: string explorer)
        [SocketCreated 1, ErrorEvent, CloseEvent])) = [5000]
   \<and> reconnects (snd (run_channel (new_explorer None None :: string explorer)
        [SocketCreated 1, OpenEvent, CloseEvent])) = [5000]
   \<and> snd (run_channel (new_explorer None None :: string explorer)
        [SocketCreated 1, ErrorEvent, CloseEvent, SocketCreated 2, OpenEvent])
     = [UpdateWSStatus ''error'', UpdateWSStatus ''disconnected'', SetTimeoutInitWebSocket 5000,
        UpdateWSStatus ''connected'', WsSendSubscribe ''blocks'', WsSendSubscribe ''transactions'']"
  by (simp add: ws_onclose_def ws_onerror_def initWebSocket_def ws_onopen_def reconnects_def
        List.map_filter_def)


subsection \<open>The poll scheduler\<close>

text \<open>
  Claim C9. \<^verbatim>\<open>startAutoRefresh\<close> on a running scheduler changes nothing and sets no timer.
  From a stopped scheduler, with the non-zero handles that \<^verbatim>\<open>setInterval\<close> returns: two
  starts are one start, and leave exactly one timer running; a stop then clears the handle
  and leaves no timer running; a start after that sets exactly one new timer.
\<close>

theorem autoRefresh_start_stop:
  "(truthy_handle (refreshInterval st') \<longrightarrow> startAutoRefresh st' h = (st', []))
   \<and> (\<not> truthy_handle (refreshInterval st) \<and> h1 \<noteq> 0 \<and> h3 \<noteq> 0 \<longrightarrow>
        run_refresh st [Start h1, Start h2] = run_refresh st [Start h1]
        \<and> active_intervals {} (snd (run_refresh st [Start h1, Start h2])) = {h1}
        \<and> refreshInterval (fst (run_refresh st [Start h1, Start h2, Stop])) = None
        \<and> active_intervals {} (snd (run_refresh st [Start h1, Start h2, Stop])) = {}
        \<and> snd (run_refresh st [Start h1, Start h2, Stop, Start h3])
            = [SetInterval h1 10000, ClearInterval h1, SetInterval h3 10000]
        \<and> active_intervals {} (snd (run_refresh st [Start h1, Start h2, Stop, Start h3])) = {h3})"
  by (simp add: startAutoRefresh_def stopAutoRefresh_def truthy_handle_def)

theorem autoRefresh_start_stop_witness:
  "truthy_handle (refreshInterval (fst (startAutoRefresh (new_explorer None None :: string explorer) 1)))
   \<and> startAutoRefresh (fst (startAutoRefresh (new_explorer None None :: string explorer) 1)) 2
       = (fst (startAutoRefresh (new_explorer None None :: string explorer) 1), [])
   \<and> \<not> truthy_handle (refreshInterval (new_explorer None None :: string explorer))
   \<and> active_intervals {} (snd (run_refresh (new_explorer None None :: string explorer) [Start 1, Start 2])) = {1}
   \<and> active_intervals {} (snd (run_refresh (new_explorer None None :: string explorer)
        [Start 1, Start 2, Stop, Start 3])) = {3}"
proof -
  let ?s = "new_explorer None None :: string explorer"
  have n: "\<not> truthy_handle (refreshInterval ?s)"
    by (simp add: new_explorer_def truthy_handle_def)
  have r: "truthy_handle (refreshInterval (fst (startAutoRefresh ?s 1)))"
    by (simp add: startAutoRefresh_def new_explorer_def truthy_handle_def)
  have h: "(1::nat) \<noteq> 0" "(3::nat) \<noteq> 0" by simp_all
  show ?thesis
    using autoRefresh_start_stop [of "fst (startAutoRefresh ?s 1)" 2 ?s 1 3 2] n r h by blast
qed


section \<open>Properties of the ledger search\<close>

lemma char_eq_code: "c = d \<longleftrightarrow> (of_char c :: nat) = of_char d"
  by simp

lemma of_char_toLowerCase_char:
  "(of_char (toLowerCase_char c) :: nat) =
     (if 65 \<le> (of_char c :: nat) \<and> (of_char c :: nat) \<le> 90 then of_char c + 32 else of_char c)"
  by (simp add: toLowerCase_char_def)

lemma of_char_toUpperCase_char:
  "(of_char (toUpperCase_char c) :: nat) =
     (if 97 \<le> (of_char c :: nat) \<and> (of_char c :: nat) \<le> 122 then of_char c - 32 else of_char c)"
proof -
  have "(of_char c :: nat) - 32 < 256"
    using nat_of_char_less_256 [of c] by arith
  then show ?thesis
    by (simp add: toUpperCase_char_def)
qed

lemma lower_0: "toLowerCase_char c = CHR ''0'' \<longleftrightarrow> c = CHR ''0''"
  by (simp add: char_eq_code [of _ "CHR ''0''"] of_char_toLowerCase_char del: of_char_eq_iff)

lemma lower_x: "toLowerCase_char c = CHR ''x'' \<longleftrightarrow> c = CHR ''x'' \<or> c = CHR ''X''"
  by (auto simp add: char_eq_code [of _ "CHR ''x''"] char_eq_code [of _ "CHR ''X''"]
        of_char_toLowerCase_char simp del: of_char_eq_iff)

lemma startsWith_0x:
  "startsWith (toLowerCase v) ''0x'' \<longleftrightarrow> (\<exists>r. v = ''0x'' @ r \<or> v = ''0X'' @ r)"
proof (cases v)
  case Nil
  then show ?thesis by (simp add: startsWith_def toLowerCase_def)
next
  case (Cons a w)
  note v = this
  show ?thesis
  proof (cases w)
    case Nil
    with v show ?thesis by (simp add: startsWith_def toLowerCase_def)
  next
    case (Cons b r)
    with v show ?thesis
      by (auto simp: startsWith_def toLowerCase_def lower_0 lower_x)
  qed
qed

lemma toUpperCase_char_hex:
  "is_hex c \<Longrightarrow> is_upper_hex (toUpperCase_char c)"
  unfolding is_hex_def is_upper_hex_def
  by (auto simp: char_eq_code [of "toUpperCase_char _"] of_char_toUpperCase_char
        simp del: of_char_eq_iff)

lemma toUpperCase_hex64:
  assumes "hex64 h"
  shows "length (toUpperCase h) = 64 \<and> list_all is_upper_hex (toUpperCase h)"
proof -
  from assms have "\<forall>c \<in> set h. is_hex c"
    by (simp add: hex64_def list_all_iff)
  then have "\<forall>c \<in> set h. is_upper_hex (toUpperCase_char c)"
    using toUpperCase_char_hex by blast
  with assms show ?thesis
    by (simp add: hex64_def toUpperCase_def list_all_iff)
qed

lemma hex64_no_prefix:
  assumes "hex64 h"
  shows "\<not> startsWith (toLowerCase h) ''0x''"
proof
  assume "startsWith (toLowerCase h) ''0x''"
  then obtain r where "h = ''0x'' @ r \<or> h = ''0X'' @ r"
    by (auto simp: startsWith_0x)
  then have "CHR ''x'' \<in> set h \<or> CHR ''X'' \<in> set h"
    by auto
  moreover have "\<not> is_hex (CHR ''x'')" and "\<not> is_hex (CHR ''X'')"
    by (simp_all add: is_hex_def)
  moreover from assms have "\<forall>c \<in> set h. is_hex c"
    by (simp add: hex64_def list_all_iff)
  ultimately show False
    by blast
qed

lemma normalizeHash_hash_form:
  assumes "hash_form q h"
  shows "normalizeHash q = Some (''0x'' @ toUpperCase h)"
proof -
  from assms have h: "hex64 h" and q: "q = h \<or> q = ''0x'' @ h \<or> q = ''0X'' @ h"
    by (simp_all add: hash_form_def)
  from q show ?thesis
  proof (elim disjE)
    assume "q = h"
    with h hex64_no_prefix [OF h] show ?thesis
      by (simp add: normalizeHash_def)
  next
    assume e: "q = ''0x'' @ h"
    then have "startsWith (toLowerCase q) ''0x''"
      unfolding startsWith_0x by blast
    with e h show ?thesis
      by (simp add: normalizeHash_def)
  next
    assume e: "q = ''0X'' @ h"
    then have "startsWith (toLowerCase q) ''0x''"
      unfolding startsWith_0x by blast
    with e h show ?thesis
      by (simp add: normalizeHash_def)
  qed
qed

lemma normalizeHash_Some:
  assumes "normalizeHash q = Some n"
  shows "\<exists>h. hash_form q h"
proof (cases "startsWith (toLowerCase q) ''0x''")
  case True
  with assms have h: "hex64 (drop 2 q)"
    by (simp add: normalizeHash_def Let_def split: if_splits)
  from True obtain r where "q = ''0x'' @ r \<or> q = ''0X'' @ r"
    by (auto simp: startsWith_0x)
  then have "q = ''0x'' @ drop 2 q \<or> q = ''0X'' @ drop 2 q"
    by auto
  with h show ?thesis
    unfolding hash_form_def by blast
next
  case False
  with assms have "hex64 q"
    by (simp add: normalizeHash_def Let_def split: if_splits)
  then show ?thesis
    unfolding hash_form_def by blast
qed

lemma normalizeHash_None:
  "(\<forall>h. \<not> hash_form q h) \<Longrightarrow> normalizeHash q = None"
  using normalizeHash_Some [of q] by (cases "normalizeHash q") auto

lemma fetchJson_failed:
  "fetch_failed (srv url) \<Longrightarrow> \<exists>e. fetchJson srv url = Inl e"
  by (cases "srv url") (auto simp: fetch_failed_def fetchJson_def)

lemma searchLedger_block:
  assumes "all_digits q" "dec_value q \<le> 2 ^ 53"
  shows "searchLedger srv q =
     Some ([''/rpc/block?height='' @ show_int (dec_value q)],
           (case fetchJson srv (''/rpc/block?height='' @ show_int (dec_value q)) of
              Inl e \<Rightarrow> Inl (FetchError e)
            | Inr block \<Rightarrow> block_result (dec_value q) block))"
  using assms by (simp add: searchLedger_def Number_digits_def Let_def)

lemma searchLedger_tx:
  assumes "\<not> all_digits q" "hash_form q h"
  shows "searchLedger srv q =
     Some ([''/rpc/tx?hash=0x'' @ toUpperCase h],
           (case fetchJson srv (''/rpc/tx?hash=0x'' @ toUpperCase h) of
              Inl e \<Rightarrow> Inr None
            | Inr tx \<Rightarrow> (case tx_result tx of Inl e \<Rightarrow> Inr None | Inr r \<Rightarrow> Inr r)))"
  using assms(1) normalizeHash_hash_form [OF assms(2)]
  by (simp add: searchLedger_def Let_def)

lemma searchLedger_other:
  assumes "\<not> all_digits q" "\<forall>h. \<not> hash_form q h"
  shows "searchLedger srv q = Some ([], Inr None)"
  using assms(1) normalizeHash_None [OF assms(2)]
  by (simp add: searchLedger_def)

lemma onSearch_urls:
  "trim v \<noteq> [] \<Longrightarrow> map_option fst (onSearch srv v) = map_option fst (searchLedger srv (trim v))"
  by (auto simp: onSearch_def split: option.splits sum.splits prod.splits)

lemma upper_a: "toUpperCase_char (CHR ''a'') = CHR ''A''"
  by (simp add: char_eq_code [of _ "CHR ''A''"] of_char_toUpperCase_char del: of_char_eq_iff)

lemma toUpperCase_a64: "toUpperCase (replicate 64 (CHR ''a'')) = replicate 64 (CHR ''A'')"
  by (simp add: toUpperCase_def upper_a)

lemma hex64_a64: "hex64 (replicate 64 (CHR ''a''))"
  by (simp add: hex64_def list_all_iff is_hex_def)

lemma not_digits_a64: "\<not> all_digits (replicate 64 (CHR ''a''))"
  by (simp add: all_digits_def list_all_iff is_digit_def)

lemma not_digits_0x_a64: "\<not> all_digits (''0x'' @ replicate 64 (CHR ''a''))"
  by (simp add: all_digits_def is_digit_def)

lemma digits_12345:
  "all_digits ''12345''" "dec_value ''12345'' = 12345" "show_int 12345 = ''12345''"
  by (simp_all add: all_digits_def is_digit_def dec_value_def digit_value_def
        show_int_def show_digits.simps digit_char_def)

lemma trim_12345: "trim '' 12345 '' = ''12345''"
  by (simp add: trim_def is_space_def)

lemma no_hash_form_aura: "\<forall>h. \<not> hash_form ''aura1qxyz'' h"
  by (auto simp: hash_form_def hex64_def)

text \<open>
  Claim C4, as amended. For the query \<^verbatim>\<open>searchLedger\<close> is given (the application passes
  the trimmed input, when that is not empty), the first rule that matches wins: a query of
  decimal digits only makes the block lookup for that number, \<^verbatim>\<open>/rpc/block?height=N\<close> (for
  numbers up to \<open>2^53\<close>, which \<^verbatim>\<open>Number\<close> holds exactly); otherwise a query that is 64
  hexadecimal digits, bare or after \<^verbatim>\<open>0x\<close> or \<^verbatim>\<open>0X\<close>, makes the transaction lookup with
  the hash in upper case after \<^verbatim>\<open>0x\<close>; any other query makes no lookup at all, and the
  result is \<^verbatim>\<open>null\<close>.
\<close>

theorem search_classification:
  "(all_digits q \<and> dec_value q \<le> 2 ^ 53 \<longrightarrow>
      (\<exists>r. searchLedger srv q = Some ([''/rpc/block?height='' @ show_int (dec_value q)], r)))
   \<and> (\<not> all_digits q \<and> hash_form q h \<longrightarrow>
      (\<exists>r. searchLedger srv q = Some ([''/rpc/tx?hash=0x'' @ toUpperCase h], r))
      \<and> length (toUpperCase h) = 64
      \<and> list_all is_upper_hex (toUpperCase h))
   \<and> (\<not> all_digits q \<and> (\<forall>h. \<not> hash_form q h) \<longrightarrow> searchLedger srv q = Some ([], Inr None))
   \<and> (trim v \<noteq> [] \<longrightarrow>
      map_option fst (onSearch srv v) = map_option fst (searchLedger srv (trim v)))"
proof (intro conjI impI)
  assume "all_digits q \<and> dec_value q \<le> 2 ^ 53"
  then show "\<exists>r. searchLedger srv q = Some ([''/rpc/block?height='' @ show_int (dec_value q)], r)"
    using searchLedger_block [of q srv] by blast
next
  assume a: "\<not> all_digits q \<and> hash_form q h"
  then show "\<exists>r. searchLedger srv q = Some ([''/rpc/tx?hash=0x'' @ toUpperCase h], r)"
    using searchLedger_tx [of q h srv] by blast
  from a have "hex64 h" by (simp add: hash_form_def)
  from toUpperCase_hex64 [OF this]
  show "length (toUpperCase h) = 64"
    and "list_all is_upper_hex (toUpperCase h)"
    by blast+
next
  assume "\<not> all_digits q \<and> (\<forall>h. \<not> hash_form q h)"
  then show "searchLedger srv q = Some ([], Inr None)"
    using searchLedger_other [of q srv] by blast
next
  assume "trim v \<noteq> []"
  then show "map_option fst (onSearch srv v) = map_option fst (searchLedger srv (trim v))"
    by (rule onSearch_urls)
qed

theorem search_classification_witness:
  "all_digits ''12345'' \<and> dec_value ''12345'' \<le> 2 ^ 53
   \<and> (\<exists>r. searchLedger (\<lambda>u. NetworkFailure) ''12345'' = Some ([''/rpc/block?height=12345''], r))
   \<and> \<not> all_digits (''0x'' @ replicate 64 (CHR ''a''))
   \<and> hash_form (''0x'' @ replicate 64 (CHR ''a'')) (replicate 64 (CHR ''a''))
   \<and> (\<exists>r. searchLedger (\<lambda>u. NetworkFailure) (''0x'' @ replicate 64 (CHR ''a''))
            = Some ([''/rpc/tx?hash=0x'' @ replicate 64 (CHR ''A'')], r))
   \<and> \<not> all_digits ''aura1qxyz'' \<and> (\<forall>h. \<not> hash_form ''aura1qxyz'' h)
   \<and> searchLedger (\<lambda>u. NetworkFailure) ''aura1qxyz'' = Some ([], Inr None)
   \<and> trim '' 12345 '' \<noteq> []
   \<and> map_option fst (onSearch (\<lambda>u. NetworkFailure) '' 12345 '')
       = map_option fst (searchLedger (\<lambda>u. NetworkFailure) ''12345'')"
proof -
  let ?srv = "\<lambda>u :: string. NetworkFailure :: jsval http_response"
  let ?a = "replicate 64 (CHR ''a'')"
  have d: "all_digits ''12345'' \<and> dec_value ''12345'' \<le> 2 ^ 53"
    by (simp add: digits_12345)
  have f: "\<not> all_digits (''0x'' @ ?a) \<and> hash_form (''0x'' @ ?a) ?a"
    using not_digits_0x_a64 hex64_a64 by (simp add: hash_form_def)
  have n: "\<not> all_digits ''aura1qxyz'' \<and> (\<forall>h. \<not> hash_form ''aura1qxyz'' h)"
    using no_hash_form_aura by (simp add: all_digits_def is_digit_def)
  have t: "trim '' 12345 '' \<noteq> []"
    by (simp add: trim_12345)
  show ?thesis
    using search_classification [of "''12345''" ?srv ?a "'' 12345 ''"]
          search_classification [of "''0x'' @ ?a" ?srv ?a "'' 12345 ''"]
          search_classification [of "''aura1qxyz''" ?srv ?a "'' 12345 ''"]
          d f n t
    by (simp add: digits_12345 trim_12345 toUpperCase_a64)
qed

text \<open>
  The claim as stated fails on an address: for \<^verbatim>\<open>aura1qxyz\<close> no request is made, whatever
  the server would answer, and the application shows that nothing was found.
\<close>

theorem address_query_no_lookup:
  "searchLedger (\<lambda>u. HttpResponse True 200 ''OK'' (Some (JObj [(''result'', JObj [])])))
     ''aura1qxyz'' = Some ([], Inr None)
   \<and> onSearch (\<lambda>u. HttpResponse True 200 ''OK'' (Some (JObj [(''result'', JObj [])])))
     ''aura1qxyz'' = Some ([], NoMatchMessage)"
proof -
  have n: "\<not> all_digits ''aura1qxyz''"
    by (simp add: all_digits_def is_digit_def)
  have t: "trim ''aura1qxyz'' = ''aura1qxyz''"
    by (simp add: trim_def is_space_def)
  show ?thesis
    using n no_hash_form_aura
    by (simp add: onSearch_def t searchLedger_other)
qed

text \<open>
  Claim C3, as amended. When the block lookup fails (the request is rejected, or the
  status is not a success), for a height up to \<open>2^53\<close>, which \<^verbatim>\<open>Number\<close> holds exactly,
  \<^verbatim>\<open>searchLedger\<close> ends in that error, and the application shows it as an error. Above
  \<open>2^53\<close> the height is rounded before the lookup, which the model leaves out (its
  result is \<open>None\<close> there), and nothing is stated. When the transaction lookup fails, \<^verbatim>\<open>searchLedger\<close> catches the
  error and returns \<^verbatim>\<open>null\<close>, and the application shows the text for no match: for a
  hash, a failed lookup and a missing transaction look the same to the caller.
\<close>

theorem search_failures:
  "(all_digits q \<and> dec_value q \<le> 2 ^ 53
      \<and> fetch_failed (srv (''/rpc/block?height='' @ show_int (dec_value q))) \<longrightarrow>
      (\<exists>e. searchLedger srv q =
         Some ([''/rpc/block?height='' @ show_int (dec_value q)], Inl (FetchError e))))
   \<and> (\<not> all_digits q \<and> hash_form q h
      \<and> fetch_failed (srv (''/rpc/tx?hash=0x'' @ toUpperCase h)) \<longrightarrow>
      searchLedger srv q = Some ([''/rpc/tx?hash=0x'' @ toUpperCase h], Inr None))
   \<and> (trim v \<noteq> [] \<and> searchLedger srv (trim v) = Some (us, Inl e') \<longrightarrow>
      onSearch srv v = Some (us, ErrorMessage e'))
   \<and> (trim v \<noteq> [] \<and> searchLedger srv (trim v) = Some (us, Inr None) \<longrightarrow>
      onSearch srv v = Some (us, NoMatchMessage))"
proof (intro conjI impI)
  assume a: "all_digits q \<and> dec_value q \<le> 2 ^ 53
      \<and> fetch_failed (srv (''/rpc/block?height='' @ show_int (dec_value q)))"
  then obtain e where "fetchJson srv (''/rpc/block?height='' @ show_int (dec_value q)) = Inl e"
    using fetchJson_failed by blast
  with a show "\<exists>e. searchLedger srv q =
         Some ([''/rpc/block?height='' @ show_int (dec_value q)], Inl (FetchError e))"
    by (simp add: searchLedger_block)
next
  assume a: "\<not> all_digits q \<and> hash_form q h
      \<and> fetch_failed (srv (''/rpc/tx?hash=0x'' @ toUpperCase h))"
  then obtain e where "fetchJson srv (''/rpc/tx?hash=0x'' @ toUpperCase h) = Inl e"
    using fetchJson_failed by blast
  with a show "searchLedger srv q = Some ([''/rpc/tx?hash=0x'' @ toUpperCase h], Inr None)"
    by (simp add: searchLedger_tx [of q h])
next
  assume "trim v \<noteq> [] \<and> searchLedger srv (trim v) = Some (us, Inl e')"
  then show "onSearch srv v = Some (us, ErrorMessage e')"
    by (simp add: onSearch_def)
next
  assume "trim v \<noteq> [] \<and> searchLedger srv (trim v) = Some (us, Inr None)"
  then show "onSearch srv v = Some (us, NoMatchMessage)"
    by (simp add: onSearch_def)
qed

theorem search_failures_witness:
  "all_digits ''12345'' \<and> dec_value ''12345'' \<le> 2 ^ 53
   \<and> fetch_failed ((\<lambda>u. NetworkFailure :: jsval http_response) ''/rpc/block?height=12345'')
   \<and> searchLedger (\<lambda>u. NetworkFailure) ''12345''
       = Some ([''/rpc/block?height=12345''], Inl (FetchError NetworkError))
   \<and> onSearch (\<lambda>u. NetworkFailure) '' 12345 ''
       = Some ([''/rpc/block?height=12345''], ErrorMessage (FetchError NetworkError))
   \<and> \<not> all_digits (''0x'' @ replicate 64 (CHR ''a''))
   \<and> hash_form (''0x'' @ replicate 64 (CHR ''a'')) (replicate 64 (CHR ''a''))
   \<and> searchLedger (\<lambda>u. NetworkFailure) (''0x'' @ replicate 64 (CHR ''a''))
       = Some ([''/rpc/tx?hash=0x'' @ replicate 64 (CHR ''A'')], Inr None)
   \<and> onSearch (\<lambda>u. NetworkFailure) (''0x'' @ replicate 64 (CHR ''a''))
       = Some ([''/rpc/tx?hash=0x'' @ replicate 64 (CHR ''A'')], NoMatchMessage)"
proof -
  let ?srv = "\<lambda>u :: string. NetworkFailure :: jsval http_response"
  let ?a = "replicate 64 (CHR ''a'')"
  have ff: "fetch_failed (?srv u)" for u
    by (simp add: fetch_failed_def)
  have d: "all_digits ''12345'' \<and> dec_value ''12345'' \<le> 2 ^ 53"
    by (simp add: digits_12345)
  have f: "\<not> all_digits (''0x'' @ ?a) \<and> hash_form (''0x'' @ ?a) ?a"
    using not_digits_0x_a64 hex64_a64 by (simp add: hash_form_def)
  have b: "searchLedger ?srv ''12345''
       = Some ([''/rpc/block?height=12345''], Inl (FetchError NetworkError))"
    using d by (simp add: searchLedger_block digits_12345 fetchJson_def)
  have x: "searchLedger ?srv (''0x'' @ ?a)
       = Some ([''/rpc/tx?hash=0x'' @ replicate 64 (CHR ''A'')], Inr None)"
    using f by (simp add: searchLedger_tx [of _ ?a] toUpperCase_a64 fetchJson_def)
  have t1: "trim '' 12345 '' = ''12345''"
    by (rule trim_12345)
  have t2: "trim (''0x'' @ ?a) = ''0x'' @ ?a"
    by (simp add: trim_def is_space_def)
  have e1: "onSearch ?srv '' 12345 ''
       = Some ([''/rpc/block?height=12345''], ErrorMessage (FetchError NetworkError))"
    using search_failures [of "''12345''" ?srv ?a "'' 12345 ''" "[''/rpc/block?height=12345'']" "FetchError NetworkError"]
          b t1 by simp
  have e2: "onSearch ?srv (''0x'' @ ?a)
       = Some ([''/rpc/tx?hash=0x'' @ replicate 64 (CHR ''A'')], NoMatchMessage)"
    using search_failures [of "''0x'' @ ?a" ?srv ?a "''0x'' @ ?a" "[''/rpc/tx?hash=0x'' @ replicate 64 (CHR ''A'')]" "FetchError NetworkError"]
          x t2 by simp
  show ?thesis
    using d f ff b x e1 e2 by blast
qed

text \<open>
  The claim as stated fails on a hash: with a server that answers 503, the search for 64
  hexadecimal digits returns \<^verbatim>\<open>null\<close>, which is the result for no match.
\<close>

theorem tx_lookup_failure_is_no_match:
  "fetch_failed ((\<lambda>u. HttpResponse False 503 ''Service Unavailable'' None :: jsval http_response)
      (''/rpc/tx?hash=0x'' @ replicate 64 (CHR ''A'')))
   \<and> searchLedger (\<lambda>u. HttpResponse False 503 ''Service Unavailable'' None) (replicate 64 (CHR ''a''))
       = Some ([''/rpc/tx?hash=0x'' @ replicate 64 (CHR ''A'')], Inr None)
   \<and> onSearch (\<lambda>u. HttpResponse False 503 ''Service Unavailable'' None) (replicate 64 (CHR ''a''))
       = Some ([''/rpc/tx?hash=0x'' @ replicate 64 (CHR ''A'')], NoMatchMessage)"
proof -
  let ?srv = "\<lambda>u :: string. HttpResponse False 503 ''Service Unavailable'' None :: jsval http_response"
  let ?a = "replicate 64 (CHR ''a'')"
  have f: "hash_form ?a ?a"
    using hex64_a64 by (simp add: hash_form_def)
  have x: "searchLedger ?srv ?a = Some ([''/rpc/tx?hash=0x'' @ replicate 64 (CHR ''A'')], Inr None)"
    using not_digits_a64 f by (simp add: searchLedger_tx [of _ ?a] toUpperCase_a64 fetchJson_def)
  have t: "trim ?a = ?a"
    by (simp add: trim_def is_space_def)
  show ?thesis
    using x by (simp add: fetch_failed_def onSearch_def t)
qed

end
